theory Spec2Isabelle
  imports Main "HOL-Library.Word"
begin

unbundle bit_operations_syntax

section \<open>Bytes, byte order and text\<close>

type_synonym byte = "8 word"

text \<open>
  The host's byte order decides how a \<^verbatim>\<open>uint16_t\<close> or \<^verbatim>\<open>uint32_t\<close> lies in memory.
  \<open>load\<close> is what a \<^verbatim>\<open>buffer_copy\<close> into a packed struct field followed by a read of the
  field gives, \<open>store\<close> is what \<^verbatim>\<open>buffer(&x, sizeof(x))\<close> exposes.
\<close>

datatype endian = Little | Big

fun le_nat :: "byte list \<Rightarrow> nat" where
  "le_nat [] = 0"
| "le_nat (b # bs) = unat b + 256 * le_nat bs"

definition le_bytes :: "nat \<Rightarrow> 'a::len word \<Rightarrow> byte list" where
  "le_bytes n w = map (\<lambda>i. of_nat (unat w div 256 ^ i)) [0..<n]"

definition load :: "endian \<Rightarrow> byte list \<Rightarrow> 'a::len word" where
  "load bo bs = of_nat (le_nat (case bo of Little \<Rightarrow> bs | Big \<Rightarrow> rev bs))"

definition store :: "endian \<Rightarrow> nat \<Rightarrow> 'a::len word \<Rightarrow> byte list" where
  "store bo n w = (case bo of Little \<Rightarrow> le_bytes n w | Big \<Rightarrow> rev (le_bytes n w))"

text \<open>
  \<^verbatim>\<open>boost::endian::endian_reverse\<close> reverses the bytes of a value; \<^verbatim>\<open>big_to_native\<close>
  does so on a little-endian host and nothing on a big-endian one.
\<close>

definition endian_reverse :: "'a::len word \<Rightarrow> 'a word" where
  "endian_reverse w = of_nat (le_nat (rev (le_bytes (LENGTH('a) div 8) w)))"

definition big_to_native :: "endian \<Rightarrow> 'a::len word \<Rightarrow> 'a word" where
  "big_to_native bo w = (case bo of Big \<Rightarrow> w | Little \<Rightarrow> endian_reverse w)"

text \<open>
  A \<^verbatim>\<open>std::string\<close> is a \<open>string\<close>; its bytes on the wire are \<open>bytes_of\<close>, and bytes
  appended to it through \<^verbatim>\<open>std::back_inserter\<close> are \<open>string_of\<close>.
\<close>

definition bytes_of :: "string \<Rightarrow> byte list" where
  "bytes_of str = map (\<lambda>c. of_nat (of_char c)) str"

definition string_of :: "byte list \<Rightarrow> string" where
  "string_of bs = map (\<lambda>b. char_of (unat b)) bs"

text \<open>\<^verbatim>\<open>std::to_string\<close> of a non-negative integer: its decimal digits.\<close>

fun to_string :: "nat \<Rightarrow> string" where
  "to_string n =
     (if n < 10 then [''0123456789'' ! n]
      else to_string (n div 10) @ [''0123456789'' ! (n mod 10)])"

declare to_string.simps [simp del]

text \<open>
  \<^verbatim>\<open>ip::make_address_v4(x).to_string()\<close> for a host-order \<^verbatim>\<open>uint32_t\<close>: dotted decimal,
  most significant byte first.
\<close>

definition address_v4_to_string :: "32 word \<Rightarrow> string" where
  "address_v4_to_string a =
     to_string (unat a div 2 ^ 24 mod 256) @ ''.'' @
     to_string (unat a div 2 ^ 16 mod 256) @ ''.'' @
     to_string (unat a div 2 ^ 8 mod 256) @ ''.'' @
     to_string (unat a mod 256)"

section \<open>Constants of the protocol\<close>

text \<open>
  Modelled from the spec: \<^verbatim>\<open>utility/socks_constants.hpp\<close> is not among the sources. The
  values are those of section 6 of the specification (version 5, method 0 for no
  authentication, command 1 for CONNECT, address types 1, 3 and 4).
\<close>

definition SOCKS5_VERSION :: byte where "SOCKS5_VERSION = 5"
definition AUTH_NO_AUTH :: byte where "AUTH_NO_AUTH = 0"
definition CONN_TCP :: byte where "CONN_TCP = 1"
definition ADDR_IPV4 :: byte where "ADDR_IPV4 = 1"
definition ADDR_DOMAIN :: byte where "ADDR_DOMAIN = 3"
definition ADDR_IPV6 :: byte where "ADDR_IPV6 = 4"

section \<open>The environment of a session\<close>

datatype error_code =
  eof | connection_reset | broken_pipe | bad_descriptor | not_connected
  | already_connected | connection_refused | cmd_not_supported | address_not_supported

text \<open>
  What the code takes from its platform and libraries:
  \<^item> \<open>byte_order\<close>: the host's byte order;
  \<^item> \<open>size_max\<close>: the \<^verbatim>\<open>max_size()\<close> of \<^verbatim>\<open>dynamic_buffer(buf)\<close> for a
    \<^verbatim>\<open>std::vector<uint8_t>\<close>, the largest \<^verbatim>\<open>std::size_t\<close>;
  \<^item> \<open>keystream\<close>: the stream cipher, see below;
  \<^item> \<open>entropy\<close>: the bytes \<^verbatim>\<open>AutoSeededRandomPool\<close> hands out;
  \<^item> \<open>address_v6_to_string\<close>: \<^verbatim>\<open>ip::make_address_v6(bytes).to_string()\<close>;
  \<^item> \<open>connect_outcome\<close>: whether the configured relay accepts the connection.
\<close>

record env =
  byte_order :: endian
  size_max :: nat
  keystream :: "byte list \<Rightarrow> byte list \<Rightarrow> nat \<Rightarrow> byte \<Rightarrow> byte"
  entropy :: "nat \<Rightarrow> byte"
  address_v6_to_string :: "byte list \<Rightarrow> string"
  connect_outcome :: "error_code option"

section \<open>The stream cipher\<close>

text \<open>
  Modelled from the spec: the cipher itself (\<^verbatim>\<open>CryptoPP::Salsa20\<close> behind
  \<^verbatim>\<open>encrypt\<close> and \<^verbatim>\<open>decrypt\<close>, \<^verbatim>\<open>shadowsocks/cipher_context.h\<close> behind
  \<^verbatim>\<open>shadowsocks::stream\<close>) is not among the sources. Section 4.2 of the specification
  describes it as an opaque stream cipher: \<^verbatim>\<open>set_key_iv\<close> puts the cursor at keystream
  position zero, \<^verbatim>\<open>transform\<close> changes the bytes in place and advances the cursor by the
  number of bytes it was given. The byte at keystream position \<open>i\<close> is transformed by
  \<open>keystream h key iv i\<close>, whatever that function is.
\<close>

record cipher =
  c_key :: "byte list"
  c_iv :: "byte list"
  cursor :: nat

definition SetKeyWithIV :: "byte list \<Rightarrow> byte list \<Rightarrow> cipher" where
  "SetKeyWithIV k v = \<lparr>c_key = k, c_iv = v, cursor = 0\<rparr>"

text \<open>
  \<^verbatim>\<open>ProcessString(data, n)\<close> transforms the first \<open>n\<close> bytes of \<open>data\<close> in place. Every
  call of the sources passes the length of the data.
\<close>

definition ProcessString :: "env \<Rightarrow> cipher \<Rightarrow> byte list \<Rightarrow> nat \<Rightarrow> cipher \<times> byte list" where
  "ProcessString h c data n =
     (c\<lparr>cursor := cursor c + n\<rparr>,
      map2 (keystream h (c_key c) (c_iv c)) [cursor c..<cursor c + n] (take n data) @ drop n data)"

definition GenerateBlock :: "env \<Rightarrow> nat \<Rightarrow> byte list" where
  "GenerateBlock h n = map (entropy h) [0..<n]"

section \<open>Sockets\<close>

text \<open>
  A socket is what the session can observe of it: whether it is open and connected, the
  bytes its peer sends before the stream ends (\<open>incoming\<close>), the error a read reports
  once they are used up (\<open>rd_end\<close>: \<open>eof\<close> for an orderly shutdown), the bytes
  transferred by each write operation so far (\<open>outgoing\<close>), and, when the peer stops
  accepting data, after how many more bytes and with which error (\<open>wr_fail\<close>).
\<close>

datatype sock_status = Closed | Unconnected | Connected

record socket =
  status :: sock_status
  incoming :: "byte list"
  rd_end :: error_code
  outgoing :: "byte list list"
  wr_fail :: "(nat \<times> error_code) option"

definition sock_check :: "socket \<Rightarrow> error_code option" where
  "sock_check sk =
     (case status sk of Closed \<Rightarrow> Some bad_descriptor
      | Unconnected \<Rightarrow> Some not_connected
      | Connected \<Rightarrow> None)"

text \<open>
  \<^verbatim>\<open>async_read(sock, b, transfer_exactly(n), yield)\<close>: exactly \<open>n\<close> bytes, or the error
  thrown as \<^verbatim>\<open>system_error\<close> (\<open>Inl\<close>) when the stream ends first. A read of no bytes
  completes at once.
\<close>

definition async_read_exactly :: "nat \<Rightarrow> socket \<Rightarrow> (error_code + byte list) \<times> socket" where
  "async_read_exactly n sk =
     (if n = 0 then (Inr [], sk)
      else case sock_check sk of
        Some e \<Rightarrow> (Inl e, sk)
      | None \<Rightarrow>
          if n \<le> length (incoming sk)
          then (Inr (take n (incoming sk)), sk\<lparr>incoming := drop n (incoming sk)\<rparr>)
          else (Inl (rd_end sk), sk\<lparr>incoming := []\<rparr>))"

text \<open>
  \<^verbatim>\<open>async_read(sock, dynamic_buffer(buf), yield)\<close> has no completion condition: Asio
  keeps reading until the dynamic buffer has reached its maximum size or an error
  (end of stream included) occurs, and with a plain \<^verbatim>\<open>yield\<close> the error is thrown.
  The result is the error or the number of bytes read, the socket, and the buffer.
\<close>

definition async_read_dynamic ::
  "nat \<Rightarrow> socket \<Rightarrow> byte list \<Rightarrow> (error_code + nat) \<times> socket \<times> byte list" where
  "async_read_dynamic mx sk buf =
     (let room = mx - length buf in
      if room = 0 then (Inr 0, sk, buf)
      else case sock_check sk of
        Some e \<Rightarrow> (Inl e, sk, buf)
      | None \<Rightarrow>
          if room \<le> length (incoming sk)
          then (Inr room, sk\<lparr>incoming := drop room (incoming sk)\<rparr>,
                buf @ take room (incoming sk))
          else (Inl (rd_end sk), sk\<lparr>incoming := []\<rparr>, buf @ incoming sk))"

text \<open>
  \<^verbatim>\<open>sock.async_read_some(buffer(buf), yield[ec])\<close>: at most the size of the buffer. The
  model lets every read find all the remaining bytes arrived.
\<close>

definition async_read_some :: "nat \<Rightarrow> socket \<Rightarrow> (error_code + byte list) \<times> socket" where
  "async_read_some n sk =
     (if n = 0 then (Inr [], sk)
      else case sock_check sk of
        Some e \<Rightarrow> (Inl e, sk)
      | None \<Rightarrow>
          if incoming sk = [] then (Inl (rd_end sk), sk)
          else (Inr (take n (incoming sk)), sk\<lparr>incoming := drop n (incoming sk)\<rparr>))"

text \<open>
  \<^verbatim>\<open>async_write(sock, buffers, transfer_all(), yield)\<close>: one write operation that
  transfers all the bytes of the buffer sequence, or fails after a part of them.
\<close>

definition async_write :: "byte list \<Rightarrow> socket \<Rightarrow> (error_code + unit) \<times> socket" where
  "async_write bs sk =
     (if bs = [] then (Inr (), sk)
      else case sock_check sk of
        Some e \<Rightarrow> (Inl e, sk)
      | None \<Rightarrow>
          (case wr_fail sk of
             None \<Rightarrow> (Inr (), sk\<lparr>outgoing := outgoing sk @ [bs]\<rparr>)
           | Some (k, e) \<Rightarrow>
               if length bs \<le> k
               then (Inr (), sk\<lparr>outgoing := outgoing sk @ [bs], wr_fail := Some (k - length bs, e)\<rparr>)
               else (Inl e, sk\<lparr>outgoing := outgoing sk @ [take k bs], wr_fail := Some (0, e)\<rparr>)))"

definition async_connect :: "error_code option \<Rightarrow> socket \<Rightarrow> (error_code + unit) \<times> socket" where
  "async_connect outcome sk =
     (if status sk = Connected then (Inl already_connected, sk)
      else case outcome of
        None \<Rightarrow> (Inr (), sk\<lparr>status := Connected\<rparr>)
      | Some e \<Rightarrow> (Inl e, sk\<lparr>status := Unconnected\<rparr>))"

definition close :: "socket \<Rightarrow> socket" where
  "close sk = sk\<lparr>status := Closed\<rparr>"

section \<open>The session\<close>

text \<open>
  \<^verbatim>\<open>client_session\<close> owns both sockets, both cipher objects, the key and the IV.
  Two fields record what the session has asked of its surroundings: \<open>connects\<close> counts
  the calls of \<^verbatim>\<open>remote.async_connect\<close>, \<open>spawned\<close> lists the coroutines started with
  \<^verbatim>\<open>spawn\<close>.
\<close>

datatype pump = LocalToRemote | RemoteToLocal

record client_session =
  local :: socket
  remote :: socket
  key :: "byte list"
  iv :: "byte list"
  encrypt :: cipher
  decrypt :: cipher
  connects :: nat
  spawned :: "pump list"

text \<open>
  A member function that may throw \<^verbatim>\<open>system_error\<close> returns the error (\<open>Inl\<close>) or its
  value (\<open>Inr\<close>), together with the session as it has left it.
\<close>

type_synonym 'a io = "client_session \<Rightarrow> (error_code + 'a) \<times> client_session"

definition io_return :: "'a \<Rightarrow> 'a io" where
  "io_return x = (\<lambda>s. (Inr x, s))"

definition io_bind :: "'a io \<Rightarrow> ('a \<Rightarrow> 'b io) \<Rightarrow> 'b io" where
  "io_bind m f = (\<lambda>s. case m s of (Inl e, s') \<Rightarrow> (Inl e, s') | (Inr x, s') \<Rightarrow> f x s')"

definition on_local :: "(socket \<Rightarrow> (error_code + 'a) \<times> socket) \<Rightarrow> 'a io" where
  "on_local op = (\<lambda>s. case op (local s) of (r, sk) \<Rightarrow> (r, s\<lparr>local := sk\<rparr>))"

definition on_remote :: "(socket \<Rightarrow> (error_code + 'a) \<times> socket) \<Rightarrow> 'a io" where
  "on_remote op = (\<lambda>s. case op (remote s) of (r, sk) \<Rightarrow> (r, s\<lparr>remote := sk\<rparr>))"

text \<open>
  The constructor: the remote socket is not open yet, and the IV is a block of 8 bytes.
\<close>

definition new_socket :: socket where
  "new_socket = \<lparr>status = Closed, incoming = [], rd_end = eof, outgoing = [], wr_fail = None\<rparr>"

definition new_client_session :: "socket \<Rightarrow> byte list \<Rightarrow> client_session" where
  "new_client_session lsock k =
     \<lparr>local = lsock, remote = new_socket, key = k, iv = replicate 8 0,
      encrypt = SetKeyWithIV [] [], decrypt = SetKeyWithIV [] [],
      connects = 0, spawned = []\<rparr>"

subsection \<open>The SOCKS5 handshake with the local client\<close>

text \<open>The loop over \<^verbatim>\<open>methods_buf\<close> that looks for \<^verbatim>\<open>AUTH_NO_AUTH\<close>.\<close>

fun find_auth :: "byte list \<Rightarrow> bool" where
  "find_auth [] = False"
| "find_auth (method # methods) = (if method = AUTH_NO_AUTH then True else find_auth methods)"

definition do_socks5_auth :: "bool io" where
  "do_socks5_auth =
     io_bind (on_local (async_read_exactly 2)) (\<lambda>auth_method.
     io_bind (on_local (async_read_exactly (unat (auth_method ! 1)))) (\<lambda>methods_buf.
       if \<not> find_auth methods_buf then io_return False
       else
         io_bind (on_local (async_write [SOCKS5_VERSION, AUTH_NO_AUTH])) (\<lambda>_.
         io_return True)))"

text \<open>
  The fixed reply to a request: a packed struct of four bytes, a \<^verbatim>\<open>uint32_t\<close> and a
  \<^verbatim>\<open>uint16_t\<close>, both zero.
\<close>

definition socks5_reply :: "env \<Rightarrow> byte list" where
  "socks5_reply h =
     [SOCKS5_VERSION, 0, 0, ADDR_IPV4]
       @ store (byte_order h) 4 (0 :: 32 word) @ store (byte_order h) 2 (0 :: 16 word)"

text \<open>
  The end of \<^verbatim>\<open>do_get_proxy_addr\<close>, which all three address branches reach: the reply
  is written and the address returned.
\<close>

definition send_reply :: "env \<Rightarrow> string \<Rightarrow> (bool \<times> string) io" where
  "send_reply h a_p =
     io_bind (on_local (async_write (socks5_reply h))) (\<lambda>_. io_return (True, a_p))"

definition do_get_proxy_addr :: "env \<Rightarrow> (bool \<times> string) io" where
  "do_get_proxy_addr h =
     io_bind (on_local (async_read_exactly 4)) (\<lambda>request.
       if request ! 0 \<noteq> SOCKS5_VERSION then io_return (False, [])
       else if request ! 1 \<noteq> CONN_TCP then io_return (False, [])
       else if request ! 3 = ADDR_IPV4 then
         io_bind (on_local (async_read_exactly (32 div 8 + 2))) (\<lambda>ap_buf.
           let addr = (load (byte_order h) (take 4 ap_buf) :: 32 word);
               port = (load (byte_order h) (drop 4 ap_buf) :: 16 word)
           in send_reply h
                (address_v4_to_string (big_to_native (byte_order h) addr) @ '':''
                   @ to_string (unat (big_to_native (byte_order h) port))))
       else if request ! 3 = ADDR_IPV6 then
         io_bind (on_local (async_read_exactly (128 div 8 + 2))) (\<lambda>ap_buf.
           let addr = take 16 ap_buf;
               port = (load (byte_order h) (drop 16 ap_buf) :: 16 word)
           in send_reply h
                (address_v6_to_string h (rev addr) @ '':''
                   @ to_string (unat (big_to_native (byte_order h) port))))
       else if request ! 3 = ADDR_DOMAIN then
         io_bind (on_local (async_read_exactly 1)) (\<lambda>len_buf.
           let domain_length = unat (len_buf ! 0) in
           io_bind (on_local (async_read_exactly (domain_length + 2))) (\<lambda>ap_buf.
             let port = (load (byte_order h) (drop domain_length ap_buf) :: 16 word)
             in send_reply h
                  (string_of (take domain_length ap_buf) @ '':''
                     @ to_string (unat (big_to_native (byte_order h) port)))))
       else io_return (False, []))"

definition do_local_socks5 :: "env \<Rightarrow> (bool \<times> string) io" where
  "do_local_socks5 h =
     io_bind do_socks5_auth (\<lambda>ok.
       if ok then do_get_proxy_addr h else io_return (False, []))"

subsection \<open>The stand-alone handshake of \<^verbatim>\<open>utility/local_socks5.cpp\<close>\<close>

text \<open>
  \<^verbatim>\<open>detail::do_local_socks5\<close> works on the socket alone and hands its handler an error
  code (\<open>None\<close> for success) and the raw bytes of the request: address type, then the
  address as read. Bytes pushed to \<^verbatim>\<open>result\<close> before an exception stay in it.
\<close>

definition detail_reply ::
  "env \<Rightarrow> byte list \<Rightarrow> socket \<Rightarrow> (error_code option \<times> byte list) \<times> socket" where
  "detail_reply h result sk =
     (case async_write (socks5_reply h) sk of
        (Inl e, sk') \<Rightarrow> ((Some e, result), sk')
      | (Inr _, sk') \<Rightarrow> ((None, result), sk'))"

definition detail_do_local_socks5 ::
  "env \<Rightarrow> socket \<Rightarrow> (error_code option \<times> byte list) \<times> socket" where
  "detail_do_local_socks5 h sk =
     (case async_read_exactly 2 sk of
        (Inl e, sk1) \<Rightarrow> ((Some e, []), sk1)
      | (Inr auth_method, sk1) \<Rightarrow>
     (case async_read_exactly (unat (auth_method ! 1)) sk1 of
        (Inl e, sk2) \<Rightarrow> ((Some e, []), sk2)
      | (Inr temp, sk2) \<Rightarrow>
     (case async_write [SOCKS5_VERSION, AUTH_NO_AUTH] sk2 of
        (Inl e, sk3) \<Rightarrow> ((Some e, []), sk3)
      | (Inr _, sk3) \<Rightarrow>
     (case async_read_exactly 4 sk3 of
        (Inl e, sk4) \<Rightarrow> ((Some e, []), sk4)
      | (Inr request, sk4) \<Rightarrow>
          if request ! 1 \<noteq> CONN_TCP then ((Some cmd_not_supported, []), sk4)
          else if request ! 3 = ADDR_IPV4 then
            (case async_read_exactly (32 div 8 + 2) sk4 of
               (Inl e, sk5) \<Rightarrow> ((Some e, [request ! 3]), sk5)
             | (Inr temp, sk5) \<Rightarrow> detail_reply h ([request ! 3] @ temp) sk5)
          else if request ! 3 = ADDR_IPV6 then
            (case async_read_exactly (128 div 8 + 2) sk4 of
               (Inl e, sk5) \<Rightarrow> ((Some e, [request ! 3]), sk5)
             | (Inr temp, sk5) \<Rightarrow> detail_reply h ([request ! 3] @ temp) sk5)
          else if request ! 3 = ADDR_DOMAIN then
            (case async_read_exactly 1 sk4 of
               (Inl e, sk5) \<Rightarrow> ((Some e, [request ! 3]), sk5)
             | (Inr len_buf, sk5) \<Rightarrow>
                 (case async_read_exactly (unat (len_buf ! 0) + 2) sk5 of
                    (Inl e, sk6) \<Rightarrow> ((Some e, [request ! 3, len_buf ! 0]), sk6)
                  | (Inr temp, sk6) \<Rightarrow>
                      detail_reply h ([request ! 3, len_buf ! 0] @ temp) sk6))
          else ((Some address_not_supported, [request ! 3]), sk4)))))"

subsection \<open>The handshake with the relay\<close>

definition send_handshake :: "env \<Rightarrow> string \<Rightarrow> unit io" where
  "send_handshake h addr_port = (\<lambda>s.
     let iv' = GenerateBlock h (length (iv s));
         enc = SetKeyWithIV (key s) iv';
         dec = SetKeyWithIV (key s) iv'
     in case ProcessString h enc (bytes_of addr_port) (length addr_port) of
          (enc', addr_bytes) \<Rightarrow>
            let size = (of_nat (length iv' + length addr_bytes) :: 16 word);
                sequence = [store (byte_order h) 2 size, iv', addr_bytes]
            in on_remote (async_write (concat sequence))
                 (s\<lparr>iv := iv', encrypt := enc', decrypt := dec\<rparr>))"

subsection \<open>Forwarding\<close>

text \<open>
  The loop of \<^verbatim>\<open>do_forward_local_to_remote\<close> ends only through an exception; the result
  is that exception and the session at that moment. \<^verbatim>\<open>buf\<close> is empty at every read.
  Were the dynamic buffer's maximum size zero, every read would complete at once with
  no byte and the loop would never end: \<open>None\<close>.
\<close>

function forward_local_to_remote :: "env \<Rightarrow> client_session \<Rightarrow> (error_code \<times> client_session) option" where
  "forward_local_to_remote h s =
     (if size_max h = 0 then None
      else case async_read_dynamic (size_max h) (local s) [] of
        (Inl e, sk, buf) \<Rightarrow> Some (e, s\<lparr>local := sk\<rparr>)
      | (Inr n_read, sk, buf) \<Rightarrow>
          (case ProcessString h (encrypt s) buf n_read of
             (enc, buf') \<Rightarrow>
               (case async_write buf' (remote s) of
                  (Inl e, rk) \<Rightarrow> Some (e, s\<lparr>local := sk, encrypt := enc, remote := rk\<rparr>)
                | (Inr _, rk) \<Rightarrow>
                    forward_local_to_remote h (s\<lparr>local := sk, encrypt := enc, remote := rk\<rparr>))))"
  by pat_completeness auto
termination
  by (relation "measure (\<lambda>(h, s). length (incoming (local s)))")
     (auto simp: async_read_dynamic_def Let_def split: if_splits option.splits)

declare forward_local_to_remote.simps [simp del]

function forward_remote_to_local :: "env \<Rightarrow> client_session \<Rightarrow> (error_code \<times> client_session) option" where
  "forward_remote_to_local h s =
     (if size_max h = 0 then None
      else case async_read_dynamic (size_max h) (remote s) [] of
        (Inl e, sk, buf) \<Rightarrow> Some (e, s\<lparr>remote := sk\<rparr>)
      | (Inr n_read, sk, buf) \<Rightarrow>
          (case ProcessString h (decrypt s) buf n_read of
             (dec, buf') \<Rightarrow>
               (case async_write buf' (local s) of
                  (Inl e, lk) \<Rightarrow> Some (e, s\<lparr>remote := sk, decrypt := dec, local := lk\<rparr>)
                | (Inr _, lk) \<Rightarrow>
                    forward_remote_to_local h (s\<lparr>remote := sk, decrypt := dec, local := lk\<rparr>))))"
  by pat_completeness auto
termination
  by (relation "measure (\<lambda>(h, s). length (incoming (remote s)))")
     (auto simp: async_read_dynamic_def Let_def split: if_splits option.splits)

declare forward_remote_to_local.simps [simp del]

text \<open>
  The \<^verbatim>\<open>catch\<close> block closes both sockets and logs the exception; nothing is returned
  or thrown. \<open>None\<close> stands for a call that never returns.
\<close>

definition do_forward_local_to_remote :: "env \<Rightarrow> client_session \<Rightarrow> client_session option" where
  "do_forward_local_to_remote h s =
     (case forward_local_to_remote h s of
        None \<Rightarrow> None
      | Some (e, s') \<Rightarrow> Some (s'\<lparr>local := close (local s'), remote := close (remote s')\<rparr>))"

definition do_forward_remote_to_local :: "env \<Rightarrow> client_session \<Rightarrow> client_session option" where
  "do_forward_remote_to_local h s =
     (case forward_remote_to_local h s of
        None \<Rightarrow> None
      | Some (e, s') \<Rightarrow> Some (s'\<lparr>local := close (local s'), remote := close (remote s')\<rparr>))"

text \<open>
  \<^verbatim>\<open>pair\<close> of \<^verbatim>\<open>utility/socket_pair.hpp\<close>: the same loop over a buffer of \<open>n\<close> bytes and a
  transformation that works in place, here a function on its own state. It leaves
  the loop with the error code, which it returns. With an empty buffer every
  operation completes at once and the loop never ends.
\<close>

function pair ::
  "nat \<Rightarrow> ('t \<Rightarrow> byte list \<Rightarrow> 't \<times> byte list) \<Rightarrow> socket \<Rightarrow> socket \<Rightarrow> 't
     \<Rightarrow> (error_code \<times> socket \<times> socket \<times> 't) option" where
  "pair n transform src dst t =
     (if n = 0 then None
      else case async_read_some n src of
        (Inl ec, src') \<Rightarrow> Some (ec, src', dst, t)
      | (Inr chunk, src') \<Rightarrow>
          (case transform t chunk of
             (t', chunk') \<Rightarrow>
               (case async_write chunk' dst of
                  (Inl ec, dst') \<Rightarrow> Some (ec, src', dst', t')
                | (Inr _, dst') \<Rightarrow> pair n transform src' dst' t')))"
  by pat_completeness auto
termination
  by (relation "measure (\<lambda>(n, transform, src, dst, t). length (incoming src))")
     (auto simp: async_read_some_def split: if_splits option.splits)

declare pair.simps [simp del]

subsection \<open>The life of a session\<close>

text \<open>
  \<^verbatim>\<open>start\<close> catches every \<^verbatim>\<open>system_error\<close> of its \<^verbatim>\<open>try\<close> block and returns; only when
  the block has run to its end are the two forwarding coroutines spawned.
\<close>

definition remote_async_connect :: "env \<Rightarrow> unit io" where
  "remote_async_connect h = (\<lambda>s.
     on_remote (async_connect (connect_outcome h)) (s\<lparr>connects := Suc (connects s)\<rparr>))"

definition start :: "env \<Rightarrow> client_session \<Rightarrow> client_session" where
  "start h s =
     (case do_local_socks5 h s of
        (Inl e, s1) \<Rightarrow> s1
      | (Inr (success, addr_port), s1) \<Rightarrow>
          if \<not> success then s1
          else
            (case io_bind (remote_async_connect h) (\<lambda>_. send_handshake h addr_port) s1 of
               (Inl e, s2) \<Rightarrow> s2
             | (Inr _, s2) \<Rightarrow> s2\<lparr>spawned := spawned s2 @ [LocalToRemote, RemoteToLocal]\<rparr>))"

section \<open>Concrete sessions\<close>

text \<open>
  An environment and sockets for the runs below: a little-endian host whose cipher
  adds the keystream position and the first bytes of key and IV to each byte, whose
  random pool counts upwards from 160, and whose dynamic buffers have the maximum size
  of a 64-bit host, \<open>2 ^ 64 - 1\<close> bytes.
  Its IPv6 printer knows the unspecified address only; no run below asks for it.
\<close>

definition demo_keystream :: "byte list \<Rightarrow> byte list \<Rightarrow> nat \<Rightarrow> byte \<Rightarrow> byte" where
  "demo_keystream k v i b = b + of_nat i + (case k of [] \<Rightarrow> 0 | x # _ \<Rightarrow> x) + (case v of [] \<Rightarrow> 0 | x # _ \<Rightarrow> x)"

definition demo_entropy :: "nat \<Rightarrow> byte" where
  "demo_entropy i = of_nat (160 + i)"

definition demo_v6 :: "byte list \<Rightarrow> string" where
  "demo_v6 bs = ''::''"

definition demo_env :: env where
  "demo_env =
     \<lparr>byte_order = Little, size_max = 18446744073709551615, keystream = demo_keystream,
      entropy = demo_entropy, address_v6_to_string = demo_v6, connect_outcome = None\<rparr>"

definition peer :: "byte list \<Rightarrow> socket" where
  "peer bs = \<lparr>status = Connected, incoming = bs, rd_end = eof, outgoing = [], wr_fail = None\<rparr>"

definition demo_session :: client_session where
  "demo_session = (new_client_session (peer [1, 2, 3, 4, 5, 6]) [7])\<lparr>remote := peer []\<rparr>"

definition long_domain :: "byte list" where
  "long_domain = replicate 255 97"

section \<open>What the handshake with the client may change\<close>

text \<open>A member function that touches nothing of the session but its local socket.\<close>

definition local_only :: "'a io \<Rightarrow> bool" where
  "local_only m = (\<forall>s r s'. m s = (r, s') \<longrightarrow> s' = s\<lparr>local := local s'\<rparr>)"

section \<open>Byte order\<close>

lemma upt_2: "[0..<2] = [0, Suc 0]"
  by (simp add: upt_rec)

lemma unat_byte_bound: "unat (b :: byte) < 256"
  using unsigned_less [of b, where 'a = nat] by simp

lemma unat_load_2:
  "unat (load bo [a, b] :: 16 word) =
     (case bo of Little \<Rightarrow> unat a + 256 * unat b | Big \<Rightarrow> unat b + 256 * unat a)"
  using unat_byte_bound [of a] unat_byte_bound [of b]
  by (cases bo) (simp_all add: load_def unat_of_nat del: of_nat_add of_nat_mult)

lemma store_2_Little:
  "store Little 2 (w :: 16 word) = [of_nat (unat w), of_nat (unat w div 256)]"
  by (simp add: store_def le_bytes_def upt_2)

lemma store_2_Big:
  "store Big 2 (w :: 16 word) = [of_nat (unat w div 256), of_nat (unat w)]"
  by (simp add: store_def le_bytes_def upt_2)

lemma length_store: "length (store bo n w) = n"
  by (cases bo) (simp_all add: store_def le_bytes_def)

text \<open>
  A port read into a \<^verbatim>\<open>uint16_t\<close> and passed through \<^verbatim>\<open>big_to_native\<close> has the same
  value on every host: the big-endian reading of its two bytes.
\<close>

lemma port_decoding:
  "unat (big_to_native bo (load bo [a, b] :: 16 word)) = unat a * 256 + unat b"
proof (cases bo)
  case Big
  then show ?thesis by (simp add: big_to_native_def unat_load_2)
next
  case Little
  have a: "unat a < 256" and b: "unat b < 256"
    by (rule unat_byte_bound)+
  have w: "unat (load Little [a, b] :: 16 word) = unat a + 256 * unat b"
    by (simp add: unat_load_2)
  have "le_bytes 2 (load Little [a, b] :: 16 word) = [a, b]"
    using a b
    by (simp add: le_bytes_def upt_2 w del: of_nat_add of_nat_mult)
       (simp add: word_eq_iff_unsigned [where 'a = nat] unat_of_nat
          del: of_nat_add of_nat_mult)
  then have "endian_reverse (load Little [a, b] :: 16 word) = of_nat (unat b + 256 * unat a)"
    by (simp add: endian_reverse_def del: of_nat_add of_nat_mult)
  then show ?thesis
    using a b Little
    by (simp add: big_to_native_def unat_of_nat del: of_nat_add of_nat_mult)
qed

section \<open>The cipher keeps its place in the keystream\<close>

lemma map2_keystream_append:
  assumes "length xs = n"
  shows "map2 f [c..<c + n] xs @ map2 f [c + n..<c + n + m] ys
           = map2 f [c..<c + n + m] (xs @ ys)"
proof -
  have "[c..<c + n + m] = [c..<c + n] @ [c + n..<c + n + m]"
    using upt_add_eq_append [of c "c + n" m] by simp
  with assms show ?thesis by simp
qed

lemma ProcessString_append:
  "snd (ProcessString h c xs (length xs))
     @ snd (ProcessString h (fst (ProcessString h c xs (length xs))) ys (length ys))
   = snd (ProcessString h c (xs @ ys) (length (xs @ ys)))"
  using map2_keystream_append
          [of xs "length xs" "keystream h (c_key c) (c_iv c)" "cursor c" "length ys" ys]
  by (simp add: ProcessString_def add.assoc)

lemma ProcessString_state_append:
  "fst (ProcessString h (fst (ProcessString h c xs (length xs))) ys (length ys))
   = fst (ProcessString h c (xs @ ys) (length (xs @ ys)))"
  by (simp add: ProcessString_def add.assoc)

text \<open>
  Claim C1. For every key, IV, byte sequence \<open>b\<close> and lengths \<open>n1\<close> and \<open>n2\<close>:
  transforming \<open>b[0:n1]\<close> and then \<open>b[n1:n1+n2]\<close> with the continuing cipher state gives,
  put together, the bytes that one call on \<open>b[0:n1+n2]\<close> gives on a state freshly set
  to the same key and IV, and leaves the cipher in the same state. Each call returns
  as many bytes as it was given: nothing is held back for a later call.
\<close>

theorem keystream_continuity:
  "snd (ProcessString h (SetKeyWithIV k v) (take n1 b) (length (take n1 b)))
     @ snd (ProcessString h
              (fst (ProcessString h (SetKeyWithIV k v) (take n1 b) (length (take n1 b))))
              (take n2 (drop n1 b)) (length (take n2 (drop n1 b))))
     = snd (ProcessString h (SetKeyWithIV k v) (take (n1 + n2) b) (length (take (n1 + n2) b)))
   \<and> fst (ProcessString h
              (fst (ProcessString h (SetKeyWithIV k v) (take n1 b) (length (take n1 b))))
              (take n2 (drop n1 b)) (length (take n2 (drop n1 b))))
     = fst (ProcessString h (SetKeyWithIV k v) (take (n1 + n2) b) (length (take (n1 + n2) b)))
   \<and> length (snd (ProcessString h c xs (length xs))) = length xs
   \<and> cursor (fst (ProcessString h c xs (length xs))) = cursor c + length xs"
  using ProcessString_append [of h "SetKeyWithIV k v" "take n1 b" "take n2 (drop n1 b)"]
    ProcessString_state_append [of h "SetKeyWithIV k v" "take n1 b" "take n2 (drop n1 b)"]
  by (simp add: take_add) (simp add: ProcessString_def)

section \<open>Evaluating the model\<close>

lemmas io_defs = io_bind_def io_return_def on_local_def on_remote_def

lemmas sock_defs = async_read_exactly_def async_write_def sock_check_def

lemmas const_defs =
  SOCKS5_VERSION_def AUTH_NO_AUTH_def CONN_TCP_def ADDR_IPV4_def ADDR_DOMAIN_def ADDR_IPV6_def

lemma to_string_80: "to_string 80 = ''80''"
  by (simp add: to_string.simps)

lemma store_eq_Nil [simp]: "store bo n w = [] \<longleftrightarrow> n = 0"
  using length_store [of bo n w] by (metis length_0_conv)

section \<open>The greeting\<close>

text \<open>
  Claim C7, at the greeting \<open>[4, 1, 0]\<close>: \<^verbatim>\<open>do_socks5_auth\<close> reads the version byte and
  never looks at it. A greeting of version 4 that offers method 0 is accepted, and
  the reply \<open>[5, 0]\<close> is written. \<^verbatim>\<open>do_get_proxy_addr\<close>, next to it, does refuse a
  request of version 4.
\<close>

theorem greeting_version_4_accepted:
  "do_socks5_auth (new_client_session (peer [4, 1, 0]) k)
     = (Inr True,
        new_client_session
          \<lparr>status = Connected, incoming = [], rd_end = eof, outgoing = [[5, 0]],
           wr_fail = None\<rparr> k)
   \<and> fst (do_get_proxy_addr h (new_client_session (peer [4, 1, 0, 1, 127, 0, 0, 1, 0, 80]) k))
     = Inr (False, [])"
  by (simp add: do_socks5_auth_def do_get_proxy_addr_def io_defs sock_defs const_defs
        new_client_session_def peer_def)

section \<open>The request\<close>

text \<open>
  Claim C3, at a request for \<open>2001:db8::1\<close>, port 80: \<^verbatim>\<open>do_get_proxy_addr\<close> applies
  \<^verbatim>\<open>std::reverse\<close> to the sixteen address bytes before it prints them, so the address
  handed on is that of the bytes in reverse wire order. The port is read big-endian.
  \<^verbatim>\<open>detail::do_local_socks5\<close> hands the same request on with its bytes in wire order.
\<close>

theorem ipv6_address_reversed:
  "fst (do_get_proxy_addr h
          (new_client_session
             (peer [5, 1, 0, 4,
                    0x20, 0x01, 0x0d, 0xb8, 0, 0, 0, 0, 0, 0, 0, 0, 0, 0, 0, 1,
                    0, 80]) k))
     = Inr (True,
            address_v6_to_string h
              [1, 0, 0, 0, 0, 0, 0, 0, 0, 0, 0, 0, 0xb8, 0x0d, 0x01, 0x20] @ '':80'')
   \<and> fst (detail_do_local_socks5 h
            (peer [5, 1, 0,
                   5, 1, 0, 4,
                   0x20, 0x01, 0x0d, 0xb8, 0, 0, 0, 0, 0, 0, 0, 0, 0, 0, 0, 1,
                   0, 80]))
     = (None, [4, 0x20, 0x01, 0x0d, 0xb8, 0, 0, 0, 0, 0, 0, 0, 0, 0, 0, 0, 1, 0, 80])"
  by (simp add: do_get_proxy_addr_def detail_do_local_socks5_def detail_reply_def
        send_reply_def socks5_reply_def io_defs sock_defs
        const_defs new_client_session_def peer_def port_decoding length_store to_string_80
        Let_def)

section \<open>The forwarding loops\<close>

text \<open>
  Claim C2, at a client that sends five bytes and closes: the read of
  \<^verbatim>\<open>do_forward_local_to_remote\<close> takes the whole stream into its growing vector and ends
  with the end-of-stream error, so that nothing is transformed or written to the relay
  before both sockets are closed. \<^verbatim>\<open>pair\<close> with a buffer of two bytes forwards the same
  stream in three pieces of at most two bytes.
\<close>

theorem whole_stream_buffered:
  "async_read_dynamic 18446744073709551615 (peer [1, 2, 3, 4, 5]) []
     = (Inl eof, peer [], [1, 2, 3, 4, 5])
   \<and> do_forward_local_to_remote (demo_env\<lparr>size_max := 18446744073709551615\<rparr>)
       ((new_client_session (peer [1, 2, 3, 4, 5]) k)\<lparr>remote := peer []\<rparr>)
     = Some ((new_client_session (close (peer [])) k)\<lparr>remote := close (peer [])\<rparr>)
   \<and> pair 2 Pair (peer [1, 2, 3, 4, 5]) (peer []) ()
     = Some (eof, peer [], (peer [])\<lparr>outgoing := [[1, 2], [3, 4], [5]]\<rparr>, ())"
  by (simp add: do_forward_local_to_remote_def forward_local_to_remote.simps pair.simps
        async_read_some_def
        async_read_dynamic_def sock_defs peer_def new_client_session_def close_def)

text \<open>The read of \<^verbatim>\<open>pair\<close>, for comparison, never returns more than its buffer holds.\<close>

lemma async_read_some_bounded:
  "async_read_some n sk = (Inr chunk, sk') \<Longrightarrow> length chunk \<le> n"
  by (auto simp: async_read_some_def split: if_splits option.splits)

lemma forward_local_to_remote_returns:
  "0 < size_max h \<Longrightarrow> \<exists>e s'. forward_local_to_remote h s = Some (e, s')"
proof (induction h s rule: forward_local_to_remote.induct)
  case (1 h s)
  show ?case
    using 1 by (subst forward_local_to_remote.simps) (auto split: prod.splits sum.splits)
qed

lemma forward_remote_to_local_returns:
  "0 < size_max h \<Longrightarrow> \<exists>e s'. forward_remote_to_local h s = Some (e, s')"
proof (induction h s rule: forward_remote_to_local.induct)
  case (1 h s)
  show ?case
    using 1 by (subst forward_remote_to_local.simps) (auto split: prod.splits sum.splits)
qed

text \<open>
  Claim C6 as stated fails for \<^verbatim>\<open>pair\<close>: when its source reaches the end of the
  stream it returns the error code to its caller and both sockets are still open.
\<close>

theorem pair_returns_error_sockets_open:
  "pair 2 Pair (peer [1, 2, 3]) (peer []) ()
     = Some (eof,
         \<lparr>status = Connected, incoming = [], rd_end = eof, outgoing = [], wr_fail = None\<rparr>,
         \<lparr>status = Connected, incoming = [], rd_end = eof, outgoing = [[1, 2], [3]],
          wr_fail = None\<rparr>,
         ())"
  by (simp add: pair.simps async_read_some_def sock_defs peer_def)

text \<open>
  Claim C6, amended: the two forwarding coroutines of the session,
  \<^verbatim>\<open>do_forward_local_to_remote\<close> and \<^verbatim>\<open>do_forward_remote_to_local\<close>, started in any state
  of the session (whatever the sockets will deliver, accept or fail with), return, and
  when they do both the local and the remote socket are closed. They return nothing
  but the session: the exception that ended the loop stays inside.
\<close>

theorem forwarding_closes_both_sockets:
  assumes "0 < size_max h"
  shows "(\<exists>s'. do_forward_local_to_remote h s = Some s'
            \<and> status (local s') = Closed \<and> status (remote s') = Closed)
       \<and> (\<exists>s'. do_forward_remote_to_local h s = Some s'
            \<and> status (local s') = Closed \<and> status (remote s') = Closed)"
proof -
  obtain e1 s1 where "forward_local_to_remote h s = Some (e1, s1)"
    using forward_local_to_remote_returns [OF assms] by blast
  moreover obtain e2 s2 where "forward_remote_to_local h s = Some (e2, s2)"
    using forward_remote_to_local_returns [OF assms] by blast
  ultimately show ?thesis
    by (simp add: do_forward_local_to_remote_def do_forward_remote_to_local_def close_def)
qed

theorem forwarding_closes_both_sockets_witness:
  "0 < size_max demo_env
   \<and> (\<exists>s'. do_forward_local_to_remote demo_env
              ((new_client_session (peer [1, 2, 3, 4, 5, 6]) [7])\<lparr>remote := peer []\<rparr>) = Some s'
         \<and> status (local s') = Closed \<and> status (remote s') = Closed)
   \<and> (\<exists>s'. do_forward_remote_to_local demo_env
              ((new_client_session (peer [1, 2, 3, 4, 5, 6]) [7])\<lparr>remote := peer []\<rparr>) = Some s'
         \<and> status (local s') = Closed \<and> status (remote s') = Closed)"
proof -
  have h: "0 < size_max demo_env"
    by (simp add: demo_env_def)
  show ?thesis
    using h forwarding_closes_both_sockets [OF h] by simp
qed

section \<open>The handshake with the client touches the local socket only\<close>

lemma local_only_return: "local_only (io_return x)"
  by (simp add: local_only_def io_return_def)

lemma local_only_on_local: "local_only (on_local op)"
  by (auto simp: local_only_def on_local_def split: prod.splits)

lemma local_only_bind:
  assumes "local_only m" and "\<And>x. local_only (f x)"
  shows "local_only (io_bind m f)"
  unfolding local_only_def
proof (intro allI impI)
  fix s r s'
  assume run: "io_bind m f s = (r, s')"
  obtain r1 s1 where m: "m s = (r1, s1)" by (cases "m s")
  have s1: "s1 = s\<lparr>local := local s1\<rparr>"
    using assms(1) m by (simp add: local_only_def)
  show "s' = s\<lparr>local := local s'\<rparr>"
  proof (cases r1)
    case (Inl e)
    with run m s1 show ?thesis by (simp add: io_bind_def)
  next
    case (Inr x)
    with run m have "f x s1 = (r, s')" by (simp add: io_bind_def)
    with assms(2) have "s' = s1\<lparr>local := local s'\<rparr>" by (simp add: local_only_def)
    with s1 show ?thesis by (metis client_session.surjective client_session.update_convs(1))
  qed
qed

lemma local_only_if:
  "local_only a \<Longrightarrow> local_only b \<Longrightarrow> local_only (if c then a else b)"
  by simp

lemmas local_only_intros =
  local_only_bind local_only_on_local local_only_return local_only_if

lemma local_only_do_socks5_auth: "local_only do_socks5_auth"
  unfolding do_socks5_auth_def by (intro local_only_intros)

lemma local_only_send_reply: "local_only (send_reply h a_p)"
  unfolding send_reply_def by (intro local_only_intros)

lemma local_only_do_get_proxy_addr: "local_only (do_get_proxy_addr h)"
  unfolding do_get_proxy_addr_def Let_def
  by (intro local_only_intros local_only_send_reply)

lemma local_only_do_local_socks5: "local_only (do_local_socks5 h)"
  unfolding do_local_socks5_def
  by (intro local_only_intros local_only_do_socks5_auth local_only_do_get_proxy_addr)

text \<open>
  Claim C5. When the handshake with the local client does not end with a target
  address (an exception of a read or write, a greeting without the no-authentication
  method such as one that offers method 2 only, a request that is refused), \<^verbatim>\<open>start\<close>
  returns at once: \<^verbatim>\<open>remote.async_connect\<close> is not called, the remote socket is as it
  was, so that no byte has been written to it, and no coroutine is spawned.
\<close>

theorem failed_handshake_leaves_remote_untouched:
  assumes "\<forall>addr_port. fst (do_local_socks5 h s) \<noteq> Inr (True, addr_port)"
  shows "connects (start h s) = connects s \<and> remote (start h s) = remote s
       \<and> spawned (start h s) = spawned s"
proof -
  obtain r s1 where run: "do_local_socks5 h s = (r, s1)"
    by (cases "do_local_socks5 h s")
  have s1: "s1 = s\<lparr>local := local s1\<rparr>"
    using local_only_do_local_socks5 [of h] run by (simp add: local_only_def)
  have "start h s = s1"
    using assms run by (auto simp: start_def split: sum.splits)
  with s1 show ?thesis
    by (metis client_session.select_convs(2,7,8) client_session.surjective client_session.update_convs(1))
qed

theorem failed_handshake_witness:
  "(\<forall>addr_port. fst (do_local_socks5 demo_env (new_client_session (peer [5, 1, 2]) [7]))
       \<noteq> Inr (True, addr_port))
   \<and> connects (start demo_env (new_client_session (peer [5, 1, 2]) [7])) = 0
   \<and> remote (start demo_env (new_client_session (peer [5, 1, 2]) [7])) = new_socket
   \<and> spawned (start demo_env (new_client_session (peer [5, 1, 2]) [7])) = []"
proof -
  have h: "\<forall>addr_port. fst (do_local_socks5 demo_env (new_client_session (peer [5, 1, 2]) [7]))
       \<noteq> Inr (True, addr_port)"
    by (simp add: do_local_socks5_def do_socks5_auth_def io_defs sock_defs const_defs
          new_client_session_def peer_def)
  show ?thesis
    using h failed_handshake_leaves_remote_untouched [OF h]
    by (simp add: new_client_session_def)
qed

section \<open>The handshake with the relay\<close>

lemma length_GenerateBlock [simp]: "length (GenerateBlock h n) = n"
  by (simp add: GenerateBlock_def)

lemma send_handshake_ok:
  assumes "status (remote s) = Connected" and "wr_fail (remote s) = None"
  shows "send_handshake h addr_port s =
     (Inr (),
      s\<lparr>iv := GenerateBlock h (length (iv s)),
        encrypt := \<lparr>c_key = key s, c_iv = GenerateBlock h (length (iv s)), cursor = length addr_port\<rparr>,
        decrypt := \<lparr>c_key = key s, c_iv = GenerateBlock h (length (iv s)), cursor = 0\<rparr>,
        remote := (remote s)\<lparr>outgoing := outgoing (remote s) @
          [store (byte_order h) 2 (of_nat (length (iv s) + length addr_port) :: 16 word)
             @ GenerateBlock h (length (iv s))
             @ map2 (keystream h (key s) (GenerateBlock h (length (iv s))))
                 [0..<length addr_port] (bytes_of addr_port)]\<rparr>\<rparr>)"
  using assms
  by (simp add: send_handshake_def ProcessString_def SetKeyWithIV_def Let_def io_defs sock_defs
        GenerateBlock_def bytes_of_def del: of_nat_add)

text \<open>
  Claim C9. \<^verbatim>\<open>send_handshake\<close> hands the two bytes of \<^verbatim>\<open>size\<close> to the write as they lie in
  memory. On a little-endian host the frame begins with the low byte of the size, on a
  big-endian host with the high byte: two hosts encode the same size differently. A
  SOCKS5 port, which goes through \<^verbatim>\<open>big_to_native\<close>, is read the same on both.
\<close>

theorem handshake_size_native_order:
  assumes "status (remote s) = Connected" and "wr_fail (remote s) = None"
  shows "take 2 (last (outgoing (remote (snd (send_handshake (h\<lparr>byte_order := Little\<rparr>) addr_port s)))))
           = [of_nat ((length (iv s) + length addr_port) mod 65536),
              of_nat ((length (iv s) + length addr_port) mod 65536 div 256)]
       \<and> take 2 (last (outgoing (remote (snd (send_handshake (h\<lparr>byte_order := Big\<rparr>) addr_port s)))))
           = [of_nat ((length (iv s) + length addr_port) mod 65536 div 256),
              of_nat ((length (iv s) + length addr_port) mod 65536)]
       \<and> unat (big_to_native Little (load Little [p1, p2] :: 16 word)) = unat p1 * 256 + unat p2
       \<and> unat (big_to_native Big (load Big [p1, p2] :: 16 word)) = unat p1 * 256 + unat p2"
  using assms
  by (simp add: send_handshake_ok store_2_Little store_2_Big unat_of_nat port_decoding
        del: of_nat_add)

theorem handshake_size_native_order_witness:
  "status (remote demo_session) = Connected \<and> wr_fail (remote demo_session) = None
   \<and> take 2 (last (outgoing (remote (snd
        (send_handshake (demo_env\<lparr>byte_order := Little\<rparr>) ''127.0.0.1:80'' demo_session)))))
       = [20, 0]
   \<and> take 2 (last (outgoing (remote (snd
        (send_handshake (demo_env\<lparr>byte_order := Big\<rparr>) ''127.0.0.1:80'' demo_session)))))
       = [0, 20]
   \<and> unat (big_to_native Little (load Little [1, 187] :: 16 word)) = 443
   \<and> unat (big_to_native Big (load Big [1, 187] :: 16 word)) = 443"
proof -
  have h: "status (remote demo_session) = Connected" "wr_fail (remote demo_session) = None"
    by (simp_all add: demo_session_def peer_def)
  have len: "length (iv demo_session) = 8"
    by (simp add: demo_session_def new_client_session_def)
  show ?thesis
    using h len handshake_size_native_order [OF h, of demo_env "''127.0.0.1:80''" 1 187]
    by simp
qed

text \<open>
  A stream that ends before the dynamic buffer is full never leaves the read of
  \<^verbatim>\<open>do_forward_local_to_remote\<close> but as an exception: the loop does not reach
  \<^verbatim>\<open>ProcessString\<close>, so the relay sees no further write and the send cipher stays
  where it was.
\<close>

lemma short_stream_forwards_nothing:
  assumes "length (incoming (local s)) < size_max h"
  shows "\<exists>s'. do_forward_local_to_remote h s = Some s'
           \<and> outgoing (remote s') = outgoing (remote s) \<and> encrypt s' = encrypt s"
  using assms
  by (simp add: do_forward_local_to_remote_def forward_local_to_remote.simps [of h s]
        async_read_dynamic_def sock_check_def close_def split: sock_status.splits)

text \<open>
  Claim C10, at a session whose client sends six bytes and closes: \<^verbatim>\<open>send_handshake\<close>
  encrypts the twelve bytes of \<open>127.0.0.1:80\<close> at keystream positions 0 to 11 and
  leaves the send cipher at position 12. \<^verbatim>\<open>do_forward_local_to_remote\<close> works on the same
  cipher object and would go on from there, but its read ends with the end of the
  stream (see claim C2): the relay has received the frame and nothing else, the six
  bytes are gone, and the cipher is still at position 12 when the sockets are closed.
\<close>

theorem handshake_then_forward_sends_frame_only:
  "fst (send_handshake demo_env ''127.0.0.1:80'' demo_session) = Inr ()
   \<and> cursor (encrypt (snd (send_handshake demo_env ''127.0.0.1:80'' demo_session))) = 12
   \<and> map_option (\<lambda>s'. (outgoing (remote s'), cursor (encrypt s'), incoming (local s')))
        (do_forward_local_to_remote demo_env
           (snd (send_handshake demo_env ''127.0.0.1:80'' demo_session)))
     = Some ([store Little 2 (20 :: 16 word)
                @ GenerateBlock demo_env 8
                @ map2 (keystream demo_env [7] (GenerateBlock demo_env 8))
                    [0..<length ''127.0.0.1:80''] (bytes_of ''127.0.0.1:80'')],
             12, [])"
  by (simp add: send_handshake_ok do_forward_local_to_remote_def
        forward_local_to_remote.simps async_read_dynamic_def sock_check_def close_def
        demo_session_def demo_env_def peer_def new_client_session_def)

section \<open>The tunnel frame of a session\<close>

lemma to_string_length: "0 < k \<Longrightarrow> n < 10 ^ k \<Longrightarrow> length (to_string n) \<le> k"
proof (induction k arbitrary: n)
  case 0
  then show ?case by simp
next
  case (Suc k)
  show ?case
  proof (cases "n < 10")
    case True
    then show ?thesis by (simp add: to_string.simps [of n])
  next
    case False
    with Suc.prems have k: "0 < k" by (cases k) auto
    from Suc.prems have "n div 10 < 10 ^ k" by (simp add: less_mult_imp_div_less mult.commute)
    with Suc.IH k have "length (to_string (n div 10)) \<le> k" by blast
    with False show ?thesis by (simp add: to_string.simps [of n])
  qed
qed

lemma to_string_port_length: "length (to_string (unat (w :: 16 word))) \<le> 5"
proof -
  have "unat w < 10 ^ 5"
    using unsigned_less [of w, where 'a = nat] by simp
  then show ?thesis by (intro to_string_length) simp_all
qed

lemma to_string_octet_length: "length (to_string (n mod 256)) \<le> 3"
proof -
  have "n mod 256 < 10 ^ 3" 
    using mod_less_divisor [of 256 n] by simp
  then show ?thesis by (intro to_string_length) simp_all
qed

lemma address_v4_to_string_length: "length (address_v4_to_string a) \<le> 15"
  using to_string_octet_length [of "unat a div 2 ^ 24"] to_string_octet_length [of "unat a div 2 ^ 16"]
    to_string_octet_length [of "unat a div 2 ^ 8"] to_string_octet_length [of "unat a"]
  by (simp add: address_v4_to_string_def)

lemma send_reply_result:
  "send_reply h a_p s = (Inr (ok, a), s') \<Longrightarrow> a = a_p"
  by (auto simp: send_reply_def io_defs split: prod.splits sum.splits)

lemma do_get_proxy_addr_length:
  assumes "do_get_proxy_addr h s = (Inr (True, a_p), s')"
    and "\<forall>bs. length (address_v6_to_string h bs) \<le> 45"
  shows "length a_p \<le> 261"
proof -
  have v4: "length (address_v4_to_string a) + length (to_string (unat (p :: 16 word))) \<le> 260" for a p
    using address_v4_to_string_length [of a] to_string_port_length [of p] by simp
  have v6: "length (address_v6_to_string h bs) + length (to_string (unat (p :: 16 word))) \<le> 260" for bs p
    using assms(2) [rule_format, of bs] to_string_port_length [of p] by simp
  have dom: "length (string_of (take (unat (n :: byte)) bs)) + length (to_string (unat (p :: 16 word))) \<le> 260" for n bs p
    using unat_byte_bound [of n] to_string_port_length [of p] by (simp add: string_of_def)
  show ?thesis
    using assms(1)
    by (auto simp: do_get_proxy_addr_def io_bind_def io_return_def Let_def v4 v6 dom
          dest!: send_reply_result split: if_splits sum.splits prod.splits)
qed

lemma send_handshake_sent:
  assumes "send_handshake h addr_port s = (Inr (), s')"
  shows "outgoing (remote s') = outgoing (remote s) @
           [store (byte_order h) 2 (of_nat (length (iv s) + length addr_port) :: 16 word)
              @ iv s'
              @ map2 (keystream h (key s) (iv s')) [0..<length addr_port] (bytes_of addr_port)]
       \<and> iv s' = GenerateBlock h (length (iv s)) \<and> spawned s' = spawned s"
  using assms
  by (auto simp: send_handshake_def ProcessString_def SetKeyWithIV_def Let_def on_remote_def
        async_write_def bytes_of_def
        split: prod.splits option.splits if_splits simp del: of_nat_add)

lemma remote_async_connect_state:
  assumes "remote_async_connect h s = (Inr (), s')"
  shows "outgoing (remote s') = outgoing (remote s) \<and> iv s' = iv s \<and> key s' = key s
       \<and> spawned s' = spawned s"
  using assms
  by (auto simp: remote_async_connect_def on_remote_def async_connect_def
        split: prod.splits option.splits if_splits)

lemma start_spawned:
  assumes "spawned (start h s) \<noteq> spawned s"
  shows "\<exists>addr_port s1 s2 s3. do_local_socks5 h s = (Inr (True, addr_port), s1)
           \<and> remote_async_connect h s1 = (Inr (), s2)
           \<and> send_handshake h addr_port s2 = (Inr (), s3)
           \<and> start h s = s3\<lparr>spawned := spawned s3 @ [LocalToRemote, RemoteToLocal]\<rparr>"
proof -
  obtain r s1 where run: "do_local_socks5 h s = (r, s1)"
    by (cases "do_local_socks5 h s")
  have s1: "s1 = s\<lparr>local := local s1\<rparr>"
    using local_only_do_local_socks5 [of h] run by (simp add: local_only_def)
  then have sp1: "spawned s1 = spawned s"
    by (metis client_session.select_convs(8) client_session.surjective client_session.update_convs(1))
  show ?thesis
  proof (cases r)
    case (Inl e)
    with run assms sp1 show ?thesis by (simp add: start_def)
  next
    case (Inr p)
    obtain ok a_p where p: "p = (ok, a_p)" by (cases p)
    show ?thesis
    proof (cases ok)
      case False
      with run assms sp1 Inr p show ?thesis by (simp add: start_def)
    next
      case True
      obtain r2 s2 where c: "remote_async_connect h s1 = (r2, s2)"
        by (cases "remote_async_connect h s1")
      have sp2: "spawned s2 = spawned s1"
        using c by (auto simp: remote_async_connect_def on_remote_def split: prod.splits)
      show ?thesis
      proof (cases r2)
        case (Inl e)
        with run assms sp1 sp2 Inr p True c show ?thesis by (simp add: start_def io_bind_def)
      next
        case r2: (Inr u)
        obtain r3 s3 where hs: "send_handshake h a_p s2 = (r3, s3)"
          by (cases "send_handshake h a_p s2")
        have sp3: "spawned s3 = spawned s2"
          using hs
          by (auto simp: send_handshake_def Let_def on_remote_def split: prod.splits)
        show ?thesis
        proof (cases r3)
          case (Inl e)
          with run assms sp1 sp2 sp3 Inr p True c r2 hs show ?thesis
            by (simp add: start_def io_bind_def)
        next
          case r3: (Inr u')
          with run Inr p True c r2 hs show ?thesis
            by (simp add: start_def io_bind_def)
        qed
      qed
    qed
  qed
qed


lemma ipv4_example:
  "address_v4_to_string (big_to_native bo (load bo [127, 0, 0, 1])) = ''127.0.0.1''"
  by (cases bo)
     (simp_all add: address_v4_to_string_def big_to_native_def load_def endian_reverse_def
        le_bytes_def to_string.simps upt_rec)

lemma example_session:
  assumes "connect_outcome h = None"
  shows "outgoing (remote (start h (new_client_session (peer [5, 1, 0, 5, 1, 0, 1, 127, 0, 0, 1, 0, 80]) k)))
     = [store (byte_order h) 2 (of_nat (8 + length ''127.0.0.1:80'') :: 16 word)
          @ GenerateBlock h 8
          @ map2 (keystream h k (GenerateBlock h 8)) [0..<length ''127.0.0.1:80'']
              (bytes_of ''127.0.0.1:80'')]"
  using assms
  by (simp add: start_def do_local_socks5_def do_socks5_auth_def do_get_proxy_addr_def
        send_reply_def remote_async_connect_def async_connect_def send_handshake_ok
        new_socket_def io_defs sock_defs const_defs new_client_session_def peer_def Let_def
        ipv4_example port_decoding to_string_80 length_store)

lemmas run_defs =
  start_def do_local_socks5_def do_socks5_auth_def do_get_proxy_addr_def send_reply_def
  socks5_reply_def remote_async_connect_def async_connect_def new_socket_def
  io_defs sock_defs const_defs new_client_session_def peer_def Let_def

lemma example_spawned:
  "connect_outcome h = None \<Longrightarrow>
   spawned (start h (new_client_session (peer [5, 1, 0, 5, 1, 0, 1, 127, 0, 0, 1, 0, 80]) k))
     = [LocalToRemote, RemoteToLocal]"
  by (simp add: run_defs send_handshake_ok ipv4_example port_decoding to_string_80 length_store)

text \<open>
  Claim C4. In every session that gets as far as spawning its forwarding coroutines,
  the remote socket has seen exactly one write operation: two bytes of size, the IV of
  eight bytes and the encrypted \<open>host:port\<close> text, where the size is the length of the IV
  plus the length of the encrypted address (no session has an address long enough for
  the 16-bit field to wrap, given that an IPv6 address prints in at most 45
  characters). For the client that asks for 127.0.0.1, port 80, the size is
  \<open>8 + length ''127.0.0.1:80''\<close>.
\<close>

theorem tunnel_handshake_frame:
  "((\<forall>bs. length (address_v6_to_string h bs) \<le> 45) \<longrightarrow>
    spawned (start h (new_client_session sock k)) \<noteq> [] \<longrightarrow>
    (\<exists>addr_port (size :: 16 word).
       fst (do_local_socks5 h (new_client_session sock k)) = Inr (True, addr_port)
       \<and> outgoing (remote (start h (new_client_session sock k)))
           = [store (byte_order h) 2 size
                @ iv (start h (new_client_session sock k))
                @ map2 (keystream h k (iv (start h (new_client_session sock k))))
                    [0..<length addr_port] (bytes_of addr_port)]
       \<and> length (iv (start h (new_client_session sock k))) = 8
       \<and> unat size = 8 + length addr_port))
   \<and> (connect_outcome h = None \<longrightarrow>
       (\<exists>(size :: 16 word) ivb enc.
          outgoing (remote (start h
             (new_client_session (peer [5, 1, 0, 5, 1, 0, 1, 127, 0, 0, 1, 0, 80]) k)))
            = [store (byte_order h) 2 size @ ivb @ enc]
          \<and> length ivb = 8 \<and> length enc = length ''127.0.0.1:80''
          \<and> unat size = 8 + length ''127.0.0.1:80''))"
proof (intro conjI impI)
  let ?s = "new_client_session sock k"
  assume v6: "\<forall>bs. length (address_v6_to_string h bs) \<le> 45"
    and sp: "spawned (start h ?s) \<noteq> []"
  from sp have "spawned (start h ?s) \<noteq> spawned ?s"
    by (simp add: new_client_session_def)
  then obtain addr_port s1 s2 s3 where
    run: "do_local_socks5 h ?s = (Inr (True, addr_port), s1)"
    and con: "remote_async_connect h s1 = (Inr (), s2)"
    and hs: "send_handshake h addr_port s2 = (Inr (), s3)"
    and st: "start h ?s = s3\<lparr>spawned := spawned s3 @ [LocalToRemote, RemoteToLocal]\<rparr>"
    using start_spawned by blast
  have s1: "s1 = ?s\<lparr>local := local s1\<rparr>"
    using local_only_do_local_socks5 [of h] run by (simp add: local_only_def)
  have r1: "outgoing (remote s1) = []" and iv1: "iv s1 = replicate 8 0" and k1: "key s1 = k"
    by (subst s1, simp add: new_client_session_def new_socket_def)+
  have s2: "outgoing (remote s2) = []" "iv s2 = replicate 8 0" "key s2 = k"
    using remote_async_connect_state [OF con] r1 iv1 k1 by simp_all
  have len: "length addr_port \<le> 261"
  proof -
    from run obtain s0 where "do_get_proxy_addr h s0 = (Inr (True, addr_port), s1)"
      by (auto simp: do_local_socks5_def io_bind_def io_return_def
            split: prod.splits sum.splits if_splits)
    then show ?thesis using v6 by (rule do_get_proxy_addr_length)
  qed
  have sent: "outgoing (remote s3) =
           [store (byte_order h) 2 (of_nat (8 + length addr_port) :: 16 word)
              @ iv s3
              @ map2 (keystream h k (iv s3)) [0..<length addr_port] (bytes_of addr_port)]"
    and iv3: "length (iv s3) = 8"
    using send_handshake_sent [OF hs] s2 by simp_all
  have "unat (of_nat (8 + length addr_port) :: 16 word) = 8 + length addr_port"
    using len by (simp add: unat_of_nat del: of_nat_add)
  with run sent iv3 st
  show "\<exists>addr_port (size :: 16 word).
       fst (do_local_socks5 h ?s) = Inr (True, addr_port)
       \<and> outgoing (remote (start h ?s))
           = [store (byte_order h) 2 size @ iv (start h ?s)
                @ map2 (keystream h k (iv (start h ?s))) [0..<length addr_port] (bytes_of addr_port)]
       \<and> length (iv (start h ?s)) = 8
       \<and> unat size = 8 + length addr_port"
    by (intro exI [of _ addr_port]) auto
next
  assume "connect_outcome h = None"
  then show "\<exists>(size :: 16 word) ivb enc.
          outgoing (remote (start h
             (new_client_session (peer [5, 1, 0, 5, 1, 0, 1, 127, 0, 0, 1, 0, 80]) k)))
            = [store (byte_order h) 2 size @ ivb @ enc]
          \<and> length ivb = 8 \<and> length enc = length ''127.0.0.1:80''
          \<and> unat size = 8 + length ''127.0.0.1:80''"
    by (intro exI [of _ "of_nat (8 + length ''127.0.0.1:80'') :: 16 word"] exI [of _ "GenerateBlock h 8"]
          exI [of _ "map2 (keystream h k (GenerateBlock h 8)) [0..<length ''127.0.0.1:80'']
              (bytes_of ''127.0.0.1:80'')"])
       (simp add: example_session bytes_of_def)
qed

theorem tunnel_handshake_frame_witness:
  "(\<forall>bs. length (address_v6_to_string demo_env bs) \<le> 45)
   \<and> spawned (start demo_env
        (new_client_session (peer [5, 1, 0, 5, 1, 0, 1, 127, 0, 0, 1, 0, 80]) [7])) \<noteq> []
   \<and> connect_outcome demo_env = None
   \<and> (\<exists>addr_port (size :: 16 word).
        fst (do_local_socks5 demo_env
               (new_client_session (peer [5, 1, 0, 5, 1, 0, 1, 127, 0, 0, 1, 0, 80]) [7]))
          = Inr (True, addr_port)
        \<and> length (outgoing (remote (start demo_env
               (new_client_session (peer [5, 1, 0, 5, 1, 0, 1, 127, 0, 0, 1, 0, 80]) [7])))) = 1
        \<and> unat size = 8 + length addr_port)
   \<and> (\<exists>(size :: 16 word) ivb enc.
        outgoing (remote (start demo_env
          (new_client_session (peer [5, 1, 0, 5, 1, 0, 1, 127, 0, 0, 1, 0, 80]) [7])))
          = [store (byte_order demo_env) 2 size @ ivb @ enc]
        \<and> length ivb = 8 \<and> length enc = length ''127.0.0.1:80''
        \<and> unat size = 8 + length ''127.0.0.1:80'')"
proof -
  have v6: "\<forall>bs. length (address_v6_to_string demo_env bs) \<le> 45"
    by (simp add: demo_env_def demo_v6_def)
  have con: "connect_outcome demo_env = None"
    by (simp add: demo_env_def)
  have sp: "spawned (start demo_env
        (new_client_session (peer [5, 1, 0, 5, 1, 0, 1, 127, 0, 0, 1, 0, 80]) [7])) \<noteq> []"
    by (simp add: example_spawned [OF con])
  have "(\<exists>addr_port (size :: 16 word).
        fst (do_local_socks5 demo_env
               (new_client_session (peer [5, 1, 0, 5, 1, 0, 1, 127, 0, 0, 1, 0, 80]) [7]))
          = Inr (True, addr_port)
        \<and> length (outgoing (remote (start demo_env
               (new_client_session (peer [5, 1, 0, 5, 1, 0, 1, 127, 0, 0, 1, 0, 80]) [7])))) = 1
        \<and> unat size = 8 + length addr_port)"
    using v6 sp
      tunnel_handshake_frame [of demo_env "peer [5, 1, 0, 5, 1, 0, 1, 127, 0, 0, 1, 0, 80]" "[7]"]
    by fastforce
  moreover have "(\<exists>(size :: 16 word) ivb enc.
        outgoing (remote (start demo_env
          (new_client_session (peer [5, 1, 0, 5, 1, 0, 1, 127, 0, 0, 1, 0, 80]) [7])))
          = [store (byte_order demo_env) 2 size @ ivb @ enc]
        \<and> length ivb = 8 \<and> length enc = length ''127.0.0.1:80''
        \<and> unat size = 8 + length ''127.0.0.1:80'')"
    using con
      tunnel_handshake_frame [of demo_env "peer [5, 1, 0, 5, 1, 0, 1, 127, 0, 0, 1, 0, 80]" "[7]"]
    by blast
  ultimately show ?thesis
    using v6 sp con by blast
qed

section \<open>Domain names\<close>

lemma request_domain_ok:
  assumes "status (local s) = Connected" and "wr_fail (local s) = None"
    and "incoming (local s) = [5, 1, 0, 3, n] @ domain @ [p1, p2] @ rest"
    and "length domain = unat n"
  shows "fst (do_get_proxy_addr h s)
           = Inr (True, string_of domain @ '':'' @ to_string (unat p1 * 256 + unat p2))"
  using assms
  by (simp add: do_get_proxy_addr_def send_reply_def socks5_reply_def io_defs sock_defs
        const_defs port_decoding length_store Let_def)

lemma request_domain_short:
  assumes "incoming (local s) = [5, 1, 0, 3, n] @ tail" and "length tail < unat n + 2"
  shows "fst (do_get_proxy_addr h s)
           = Inl (case sock_check (local s) of Some e \<Rightarrow> e | None \<Rightarrow> rd_end (local s))"
  using assms
  by (simp add: do_get_proxy_addr_def send_reply_def io_defs sock_defs const_defs
        Let_def split: sock_status.splits)

lemma detail_domain_ok:
  assumes "status sk = Connected" and "wr_fail sk = None"
    and "incoming sk = [v, m] @ methods @ [v', 1, r, 3, n] @ domain @ [p1, p2] @ rest"
    and "length methods = unat m" and "length domain = unat n"
  shows "fst (detail_do_local_socks5 h sk) = (None, [3, n] @ domain @ [p1, p2])"
  using assms
  by (cases "unat m = 0")
     (simp_all add: detail_do_local_socks5_def detail_reply_def socks5_reply_def sock_defs
        const_defs length_store)

lemma detail_domain_short:
  assumes "incoming sk = [v, m] @ methods @ [v', 1, r, 3, n] @ tail"
    and "length methods = unat m" and "length tail < unat n + 2"
  shows "\<exists>e. fst (fst (detail_do_local_socks5 h sk)) = Some e"
  using assms
  by (cases "unat m = 0")
     (auto simp: detail_do_local_socks5_def detail_reply_def socks5_reply_def sock_defs
        const_defs length_store split: sock_status.splits option.splits if_splits)

text \<open>
  Claim C8. A request of type domain with the length byte 255, followed by 255 bytes
  of name and two of port, is parsed to the whole name and the port, by
  \<^verbatim>\<open>do_get_proxy_addr\<close> and by \<^verbatim>\<open>detail::do_local_socks5\<close> alike. A request whose length
  byte announces more than the stream still holds ends in the error of the read
  (end of stream, or the failure of the socket), never in a shortened address.
\<close>

theorem domain_length_boundary:
  "(status (local s) = Connected \<longrightarrow> wr_fail (local s) = None \<longrightarrow>
    incoming (local s) = [5, 1, 0, 3, 255] @ domain @ [p1, p2] @ rest \<longrightarrow>
    length domain = 255 \<longrightarrow>
    fst (do_get_proxy_addr h s)
      = Inr (True, string_of domain @ '':'' @ to_string (unat p1 * 256 + unat p2)))
   \<and> (incoming (local s) = [5, 1, 0, 3, n] @ tail \<longrightarrow> length tail < unat n + 2 \<longrightarrow>
       fst (do_get_proxy_addr h s)
         = Inl (case sock_check (local s) of Some e \<Rightarrow> e | None \<Rightarrow> rd_end (local s)))
   \<and> (status sk = Connected \<longrightarrow> wr_fail sk = None \<longrightarrow>
       incoming sk = [v, m] @ methods @ [v', 1, r, 3, 255] @ domain @ [p1, p2] @ rest \<longrightarrow>
       length methods = unat m \<longrightarrow> length domain = 255 \<longrightarrow>
       fst (detail_do_local_socks5 h sk) = (None, [3, 255] @ domain @ [p1, p2]))
   \<and> (incoming sk = [v, m] @ methods @ [v', 1, r, 3, n] @ tail \<longrightarrow>
       length methods = unat m \<longrightarrow> length tail < unat n + 2 \<longrightarrow>
       (\<exists>e. fst (fst (detail_do_local_socks5 h sk)) = Some e))"
  using request_domain_ok [of s 255 domain p1 p2 rest h]
    request_domain_short [of s n tail h]
    detail_domain_ok [of sk v m methods v' r 255 domain p1 p2 rest h]
    detail_domain_short [of sk v m methods v' r n tail h]
  by simp

theorem domain_length_boundary_witness:
  "status (peer ([5, 1, 0, 3, 255] @ long_domain @ [1, 187] @ [])) = Connected
   \<and> length long_domain = 255
   \<and> fst (do_get_proxy_addr demo_env
            (new_client_session (peer ([5, 1, 0, 3, 255] @ long_domain @ [1, 187] @ [])) [7]))
       = Inr (True, string_of long_domain @ '':443'')
   \<and> length [97, 98 :: byte] < unat (5 :: byte) + 2
   \<and> fst (do_get_proxy_addr demo_env (new_client_session (peer ([5, 1, 0, 3, 5] @ [97, 98])) [7]))
       = Inl eof
   \<and> fst (detail_do_local_socks5 demo_env
            (peer ([5, 1] @ [0] @ [5, 1, 0, 3, 255] @ long_domain @ [1, 187] @ [])))
       = (None, [3, 255] @ long_domain @ [1, 187])
   \<and> (\<exists>e. fst (fst (detail_do_local_socks5 demo_env
                 (peer ([5, 1] @ [0] @ [5, 1, 0, 3, 5] @ [97, 98])))) = Some e)"
proof -
  have len: "length long_domain = 255"
    by (simp add: long_domain_def)
  have port: "to_string (unat (1 :: byte) * 256 + unat (187 :: byte)) = ''443''"
    by (simp add: to_string.simps)
  show ?thesis
    using len port
      domain_length_boundary
        [of "new_client_session (peer ([5, 1, 0, 3, 255] @ long_domain @ [1, 187] @ [])) [7]"
            long_domain 1 187 "[]" demo_env 5 "[97, 98]"
            "peer ([5, 1] @ [0] @ [5, 1, 0, 3, 255] @ long_domain @ [1, 187] @ [])" 5 1 "[0]" 5 0]
      domain_length_boundary
        [of "new_client_session (peer ([5, 1, 0, 3, 5] @ [97, 98])) [7]"
            long_domain 1 187 "[]" demo_env 5 "[97, 98]"
            "peer ([5, 1] @ [0] @ [5, 1, 0, 3, 5] @ [97, 98])" 5 1 "[0]" 5 0]
    by (simp add: peer_def new_client_session_def sock_check_def)
qed

end
